theory Spec2Isabelle
  imports Complex_Main
begin

section \<open>Python and NumPy values\<close>

text \<open>
  The exceptions the modelled code can raise.  \<open>NotImplementedError\<close> is raised
  explicitly by \<open>initiate\<close> and \<open>finalise\<close>; \<open>TypeError\<close> is what Python raises when
  arithmetic meets an attribute that is still \<open>None\<close>; \<open>ZeroDivisionError\<close> is what
  \<open>np.arange\<close> raises on a zero step.
\<close>

datatype error = NotImplementedError | TypeError | ZeroDivisionError

text \<open>
  A NumPy \<open>float64\<close>.  Finite numbers are carried as reals, so rounding, overflow and
  underflow are not part of the model; what is modelled exactly is the IEEE 754
  special-value arithmetic: both zeros, both infinities and NaN.  \<open>Fin 0\<close> is \<open>+0.0\<close> and
  \<open>NegZero\<close> is \<open>-0.0\<close>; the operations below never build \<open>-0.0\<close> as \<open>Fin 0\<close>.
\<close>

datatype npfloat = Fin real | NegZero | PInf | NInf | NaN

fun is_nan :: "npfloat \<Rightarrow> bool" where
  "is_nan NaN = True"
| "is_nan _ = False"

fun is_inf :: "npfloat \<Rightarrow> bool" where
  "is_inf PInf = True"
| "is_inf NInf = True"
| "is_inf _ = False"

fun is_zero :: "npfloat \<Rightarrow> bool" where
  "is_zero (Fin x) = (x = 0)"
| "is_zero NegZero = True"
| "is_zero _ = False"

fun signbit :: "npfloat \<Rightarrow> bool" where
  "signbit (Fin x) = (x < 0)"
| "signbit NegZero = True"
| "signbit PInf = False"
| "signbit NInf = True"
| "signbit NaN = False"

fun val :: "npfloat \<Rightarrow> real" where
  "val (Fin x) = x"
| "val _ = 0"

definition zero_of :: "bool \<Rightarrow> npfloat" where
  "zero_of s = (if s then NegZero else Fin 0)"

definition inf_of :: "bool \<Rightarrow> npfloat" where
  "inf_of s = (if s then NInf else PInf)"

fun fneg :: "npfloat \<Rightarrow> npfloat" where
  "fneg (Fin x) = (if x = 0 then NegZero else Fin (- x))"
| "fneg NegZero = Fin 0"
| "fneg PInf = NInf"
| "fneg NInf = PInf"
| "fneg NaN = NaN"

definition fadd :: "npfloat \<Rightarrow> npfloat \<Rightarrow> npfloat" where
  "fadd a b =
     (if is_nan a \<or> is_nan b then NaN
      else if is_inf a \<and> is_inf b then (if a = b then a else NaN)
      else if is_inf a then a
      else if is_inf b then b
      else if a = NegZero \<and> b = NegZero then NegZero
      else Fin (val a + val b))"

definition fsub :: "npfloat \<Rightarrow> npfloat \<Rightarrow> npfloat" where
  "fsub a b = fadd a (fneg b)"

definition fmul :: "npfloat \<Rightarrow> npfloat \<Rightarrow> npfloat" where
  "fmul a b =
     (if is_nan a \<or> is_nan b then NaN
      else if (is_inf a \<and> is_zero b) \<or> (is_zero a \<and> is_inf b) then NaN
      else if is_inf a \<or> is_inf b then inf_of (signbit a \<noteq> signbit b)
      else if is_zero a \<or> is_zero b then zero_of (signbit a \<noteq> signbit b)
      else Fin (val a * val b))"

definition fdiv :: "npfloat \<Rightarrow> npfloat \<Rightarrow> npfloat" where
  "fdiv a b =
     (if is_nan a \<or> is_nan b then NaN
      else if is_inf a \<and> is_inf b then NaN
      else if is_zero a \<and> is_zero b then NaN
      else if is_inf a \<or> is_zero b then inf_of (signbit a \<noteq> signbit b)
      else if is_zero a \<or> is_inf b then zero_of (signbit a \<noteq> signbit b)
      else Fin (val a / val b))"

text \<open>\<open>x ** 2\<close>.\<close>

definition fpow2 :: "npfloat \<Rightarrow> npfloat" where
  "fpow2 a = fmul a a"

fun fsinh :: "npfloat \<Rightarrow> npfloat" where
  "fsinh (Fin x) = Fin (sinh x)"
| "fsinh NegZero = NegZero"
| "fsinh PInf = PInf"
| "fsinh NInf = NInf"
| "fsinh NaN = NaN"

fun ftanh :: "npfloat \<Rightarrow> npfloat" where
  "ftanh (Fin x) = Fin (tanh x)"
| "ftanh NegZero = NegZero"
| "ftanh PInf = Fin 1"
| "ftanh NInf = Fin (- 1)"
| "ftanh NaN = NaN"

text \<open>The comparisons \<open>x > 0\<close> and \<open>x <= 0\<close>; both are false on NaN.\<close>

fun gt_zero :: "npfloat \<Rightarrow> bool" where
  "gt_zero (Fin x) = (0 < x)"
| "gt_zero PInf = True"
| "gt_zero _ = False"

fun le_zero :: "npfloat \<Rightarrow> bool" where
  "le_zero (Fin x) = (x \<le> 0)"
| "le_zero NegZero = True"
| "le_zero NInf = True"
| "le_zero _ = False"

text \<open>
  \<open>np.arange(0, stop, step)\<close> for an integer \<open>stop\<close>: the values \<open>0 + i * step\<close> for
  \<open>i\<close> below \<open>ceil(stop / step)\<close>, none when that is not positive; a zero step raises.
\<close>

definition arange :: "nat \<Rightarrow> real \<Rightarrow> error + real list" where
  "arange stop step =
     (if step = 0 then Inl ZeroDivisionError
      else Inr (map (\<lambda>i. real i * step) [0..<nat \<lceil>real stop / step\<rceil>]))"

text \<open>
  The Python values that \<open>update\<close> takes as its storm flag and returns, with Python's
  truth value of each.
\<close>

datatype pyval = PyNone | PyBool bool | PyInt int | PyTuple "pyval list"

fun truthy :: "pyval \<Rightarrow> bool" where
  "truthy PyNone = False"
| "truthy (PyBool b) = b"
| "truthy (PyInt i) = (i \<noteq> 0)"
| "truthy (PyTuple xs) = (xs \<noteq> [])"

text \<open>
  \<open>scipy.optimize.fsolve(func, x0)\<close> is a library routine outside the repository: the
  model takes it as a parameter, and every theorem holds for whatever it returns.
\<close>

type_synonym solver = "(npfloat \<Rightarrow> npfloat) \<Rightarrow> npfloat \<Rightarrow> npfloat"

section \<open>The class \<open>Reef1D\<close>\<close>

text \<open>
  The fields of \<open>Reef1D\<close>, each \<open>Optional\<close> with default \<open>None\<close>.  The bathymetry is
  a NumPy array of floats (the code adds a scalar to it and compares its entries with
  \<open>0\<close>), the spacing \<open>dx\<close> a finite number.
\<close>

record Reef1D =
  working_dir :: "string option"
  definition_file :: "string option"
  config_file :: "string option"
  water_depth :: "npfloat list option"
  can_dia :: "npfloat option"
  can_height :: "npfloat option"
  can_den :: "npfloat option"
  bath :: "npfloat list option"
  Hs :: "npfloat option"
  Tp :: "npfloat option"
  dx :: "real option"

text \<open>An instance built with no arguments: every field is \<open>None\<close>.\<close>

definition Reef1D_default :: Reef1D where
  "Reef1D_default =
     \<lparr>working_dir = None, definition_file = None, config_file = None, water_depth = None,
      can_dia = None, can_height = None, can_den = None, bath = None, Hs = None,
      Tp = None, dx = None\<rparr>"

text \<open>
  Reading the attribute \<open>water_depth\<close>: \<open>Reef1D\<close> declares it as a plain field, so the
  read returns what is stored.  The protocol class declares a property of the same name
  whose body raises; \<open>Reef1D\<close> does not inherit from the protocol class.
\<close>

definition Reef1D_water_depth :: "Reef1D \<Rightarrow> error + npfloat list option" where
  "Reef1D_water_depth m = Inr (water_depth m)"

definition HydrodynamicProtocol_water_depth :: "error + npfloat list option" where
  "HydrodynamicProtocol_water_depth = Inl NotImplementedError"

definition space :: "Reef1D \<Rightarrow> nat option" where
  "space m = (if bath m = None then None else Some (length (the (bath m))))"

definition x_coordinates :: "Reef1D \<Rightarrow> error + real list option" where
  "x_coordinates m =
     (if space m = None \<or> dx m = None then Inr None
      else (case arange (the (space m)) (the (dx m)) of
              Inl e \<Rightarrow> Inl e
            | Inr xs \<Rightarrow> Inr (Some xs)))"

definition y_coordinates :: "Reef1D \<Rightarrow> real list" where
  "y_coordinates m = [0]"

definition xy_coordinates :: "Reef1D \<Rightarrow> error + real list list option" where
  "xy_coordinates m =
     (case x_coordinates m of
        Inl e \<Rightarrow> Inl e
      | Inr None \<Rightarrow> Inr None
      | Inr (Some xs) \<Rightarrow>
          Inr (Some (map (\<lambda>i. [xs ! i, y_coordinates m ! 0]) [0..<length xs])))"

definition per_wav :: "Reef1D \<Rightarrow> npfloat option" where
  "per_wav m = Tp m"

definition water_level :: "Reef1D \<Rightarrow> npfloat" where
  "water_level m = Fin 0"

text \<open>\<open>self.bath + self.water_level\<close>: element-wise, a \<open>TypeError\<close> when \<open>bath\<close> is \<open>None\<close>.\<close>

definition depth :: "Reef1D \<Rightarrow> error + npfloat list" where
  "depth m =
     (case bath m of
        None \<Rightarrow> Inl TypeError
      | Some b \<Rightarrow> Inr (map (\<lambda>z. fadd z (water_level m)) b))"

definition dispersion :: "npfloat \<Rightarrow> npfloat \<Rightarrow> npfloat \<Rightarrow> npfloat \<Rightarrow> npfloat" where
  "dispersion wave_len wave_period h grav_acc =
     fsub wave_len
       (fmul (fdiv (fmul grav_acc (fpow2 wave_period)) (Fin (2 * pi)))
             (ftanh (fdiv (fmul (Fin (2 * pi)) h) wave_len)))"

text \<open>
  \<open>wave_length\<close>: \<open>L0\<close> is computed first (a \<open>TypeError\<close> when \<open>Tp\<close> is \<open>None\<close>), then
  the array of zeros is filled by the solver at the nodes with \<open>h > 0\<close> only.
\<close>

definition wave_length :: "solver \<Rightarrow> Reef1D \<Rightarrow> error + npfloat list" where
  "wave_length fsolve m =
     (case per_wav m of
        None \<Rightarrow> Inl TypeError
      | Some T \<Rightarrow>
          (let L0 = fmul (Fin 9.81) (fpow2 T) in
           case depth m of
             Inl e \<Rightarrow> Inl e
           | Inr d \<Rightarrow>
               Inr (map (\<lambda>h. if gt_zero h
                              then fsolve (\<lambda>L. dispersion L T h (Fin 9.81)) L0
                              else Fin 0) d)))"

text \<open>\<open>wave_number\<close>: zeros, overwritten by \<open>2 * pi / L\<close> under the mask \<open>L > 0\<close>.\<close>

definition wave_number :: "solver \<Rightarrow> Reef1D \<Rightarrow> error + npfloat list" where
  "wave_number fsolve m =
     (case wave_length fsolve m of
        Inl e \<Rightarrow> Inl e
      | Inr L \<Rightarrow> Inr (map (\<lambda>l. if gt_zero l then fdiv (Fin (2 * pi)) l else Fin 0) L))"

definition wave_celerity :: "solver \<Rightarrow> Reef1D \<Rightarrow> error + npfloat list" where
  "wave_celerity fsolve m =
     (case wave_length fsolve m of
        Inl e \<Rightarrow> Inl e
      | Inr L \<Rightarrow>
          (case per_wav m of
             None \<Rightarrow> Inl TypeError
           | Some T \<Rightarrow> Inr (map (\<lambda>l. fdiv l T) L)))"

text \<open>
  \<open>group_celerity\<close>: \<open>n = 0.5 * (1 + (2 * k * depth) / sinh(k * depth))\<close> element by
  element, then \<open>n * wave_celerity\<close>.  NumPy divides by zero without raising.
\<close>

definition group_celerity :: "solver \<Rightarrow> Reef1D \<Rightarrow> error + npfloat list" where
  "group_celerity fsolve m =
     (case wave_number fsolve m of
        Inl e \<Rightarrow> Inl e
      | Inr k \<Rightarrow>
          (case depth m of
             Inl e \<Rightarrow> Inl e
           | Inr d \<Rightarrow>
               (let n = map2 (\<lambda>ki di.
                          fmul (Fin 0.5)
                            (fadd (Fin 1)
                               (fdiv (fmul (fmul (Fin 2) ki) di) (fsinh (fmul ki di))))) k d
                in case wave_celerity fsolve m of
                     Inl e \<Rightarrow> Inl e
                   | Inr c \<Rightarrow> Inr (map2 fmul n c))))"

text \<open>
  The methods.  Each returns its outcome (the exception raised or the value returned)
  together with the model as the call leaves it; \<open>update\<close> also returns the coral object
  as the call leaves it.  None of the three bodies assigns to anything.
\<close>

definition initiate :: "Reef1D \<Rightarrow> (error + pyval) \<times> Reef1D" where
  "initiate m = (Inl NotImplementedError, m)"

definition update :: "Reef1D \<Rightarrow> 'coral \<Rightarrow> pyval \<Rightarrow> (error + pyval) \<times> Reef1D \<times> 'coral" where
  "update m coral storm =
     (if truthy storm then (Inr (PyTuple [PyNone, PyNone]), m, coral)
      else (Inr (PyTuple [PyNone, PyNone, PyNone]), m, coral))"

definition finalise :: "Reef1D \<Rightarrow> (error + pyval) \<times> Reef1D" where
  "finalise m = (Inl NotImplementedError, m)"

section \<open>Example models\<close>

text \<open>
  Two configurations named in the specification's scenarios, a third with unit spacing,
  and a stand-in for the solver that hands back its starting value.
\<close>

definition reef_dry_wet :: Reef1D where
  "reef_dry_wet =
     Reef1D_default\<lparr>bath := Some [Fin (- 1), Fin 0, Fin 3], Tp := Some (Fin 8), dx := Some 5\<rparr>"

definition reef_five :: Reef1D where
  "reef_five =
     Reef1D_default\<lparr>bath := Some [Fin 5, Fin 5, Fin 5, Fin 5, Fin 5], Hs := Some (Fin 1.5),
       Tp := Some (Fin 8), dx := Some 10\<rparr>"

definition reef_unit_spacing :: Reef1D where
  "reef_unit_spacing = Reef1D_default\<lparr>bath := Some [Fin 5, Fin 5, Fin 5], dx := Some 1\<rparr>"

definition initial_guess :: solver where
  "initial_guess func x0 = x0"

section \<open>Facts about the float arithmetic\<close>

lemma fadd_NaN_right: "fadd a NaN = NaN"
  by (simp add: fadd_def)

lemma fmul_NaN_left: "fmul NaN b = NaN"
  by (simp add: fmul_def)

lemma fmul_NaN_right: "fmul a NaN = NaN"
  by (simp add: fmul_def)

lemma fdiv_NaN_left: "fdiv NaN b = NaN"
  by (simp add: fdiv_def)

lemma fdiv_zero_zero: "is_zero a \<Longrightarrow> is_zero b \<Longrightarrow> fdiv a b = NaN"
  by (cases a; cases b) (simp_all add: fdiv_def)

lemma fsinh_zero: "is_zero a \<Longrightarrow> is_zero (fsinh a)"
  by (cases a) simp_all

lemma fmul_zero_cases: "is_zero a \<Longrightarrow> is_zero (fmul a b) \<or> fmul a b = NaN"
  by (cases a; cases b) (simp_all add: fmul_def zero_of_def)

lemma fmul_two_zero: "is_zero a \<Longrightarrow> is_zero (fmul (Fin 2) a)"
  by (cases a) (simp_all add: fmul_def zero_of_def)

lemma fmul_zero_same:
  "is_zero a \<Longrightarrow> is_zero a' \<Longrightarrow> is_zero (fmul a b) \<longleftrightarrow> is_zero (fmul a' b)"
  by (cases a; cases a'; cases b) (simp_all add: fmul_def zero_of_def inf_of_def)

lemma fmul_zero_nan_same:
  "is_zero a \<Longrightarrow> is_zero a' \<Longrightarrow> fmul a b = NaN \<longleftrightarrow> fmul a' b = NaN"
  by (cases a; cases a'; cases b) (simp_all add: fmul_def zero_of_def inf_of_def)

lemma ratio_zero_wave_number:
  assumes "is_zero k"
  shows "fdiv (fmul (fmul (Fin 2) k) d) (fsinh (fmul k d)) = NaN"
proof -
  have z2: "is_zero (fmul (Fin 2) k)" using assms by (rule fmul_two_zero)
  from fmul_zero_cases [OF assms, of d] show ?thesis
  proof
    assume z: "is_zero (fmul k d)"
    then have "is_zero (fmul (fmul (Fin 2) k) d)"
      using fmul_zero_same [OF z2 assms, of d] by simp
    moreover have "is_zero (fsinh (fmul k d))" using z by (rule fsinh_zero)
    ultimately show ?thesis by (rule fdiv_zero_zero)
  next
    assume n: "fmul k d = NaN"
    then have "fmul (fmul (Fin 2) k) d = NaN"
      using fmul_zero_nan_same [OF z2 assms, of d] by simp
    then show ?thesis by (simp add: fdiv_NaN_left)
  qed
qed

lemma group_factor_zero_wave_number:
  "is_zero k \<Longrightarrow>
   fmul (fmul (Fin 0.5) (fadd (Fin 1) (fdiv (fmul (fmul (Fin 2) k) d) (fsinh (fmul k d))))) c
     = NaN"
  by (simp add: ratio_zero_wave_number fadd_NaN_right fmul_NaN_right fmul_NaN_left)

section \<open>The wave field of a configured model\<close>

lemma le_zero_not_gt_zero: "le_zero h \<Longrightarrow> \<not> gt_zero h"
  by (cases h) simp_all

lemma depth_configured:
  "bath m = Some b \<Longrightarrow> depth m = Inr (map (\<lambda>z. fadd z (Fin 0)) b)"
  by (simp add: depth_def water_level_def)

lemma wave_length_configured:
  assumes "bath m = Some b" and "Tp m = Some T"
  shows "wave_length fsolve m =
     Inr (map (\<lambda>h. if gt_zero h
                    then fsolve (\<lambda>L. dispersion L T h (Fin 9.81)) (fmul (Fin 9.81) (fpow2 T))
                    else Fin 0)
            (map (\<lambda>z. fadd z (Fin 0)) b))"
  using assms by (simp add: wave_length_def per_wav_def depth_configured)

lemma wave_number_configured:
  assumes "wave_length fsolve m = Inr L"
  shows "wave_number fsolve m =
     Inr (map (\<lambda>l. if gt_zero l then fdiv (Fin (2 * pi)) l else Fin 0) L)"
  using assms by (simp add: wave_number_def)

lemma wave_celerity_configured:
  assumes "wave_length fsolve m = Inr L" and "Tp m = Some T"
  shows "wave_celerity fsolve m = Inr (map (\<lambda>l. fdiv l T) L)"
  using assms by (simp add: wave_celerity_def per_wav_def)

lemma group_celerity_configured:
  assumes "wave_number fsolve m = Inr k" and "depth m = Inr d"
    and "wave_celerity fsolve m = Inr c"
  shows "group_celerity fsolve m =
     Inr (map2 fmul
            (map2 (\<lambda>ki di. fmul (Fin 0.5)
                     (fadd (Fin 1) (fdiv (fmul (fmul (Fin 2) ki) di) (fsinh (fmul ki di)))))
               k d)
            c)"
  using assms by (simp add: group_celerity_def)

text \<open>
  At a node whose depth is \<open>\<le> 0\<close> the solver is not called: wave length and wave
  number are \<open>+0.0\<close> there.  The group celerity at that node is
  \<open>0.5 * (1 + 0/0) * 0\<close>, which is NaN.
\<close>

lemma dry_node_wave_field:
  assumes b: "bath m = Some b" and T: "Tp m = Some T"
    and dm: "depth m = Inr dm" and i: "i < length dm" and dry: "le_zero (dm ! i)"
  shows "\<exists>L k g. wave_length fsolve m = Inr L \<and> wave_number fsolve m = Inr k \<and>
           group_celerity fsolve m = Inr g \<and>
           length L = length dm \<and> length k = length dm \<and> length g = length dm \<and>
           L ! i = Fin 0 \<and> k ! i = Fin 0 \<and> g ! i = NaN"
proof -
  define d where "d = map (\<lambda>z. fadd z (Fin 0)) b"
  define L where "L = map (\<lambda>h. if gt_zero h
                    then fsolve (\<lambda>L. dispersion L T h (Fin 9.81)) (fmul (Fin 9.81) (fpow2 T))
                    else Fin 0) d"
  define k where "k = map (\<lambda>l. if gt_zero l then fdiv (Fin (2 * pi)) l else Fin 0) L"
  define c where "c = map (\<lambda>l. fdiv l T) L"
  define n where "n = map2 (\<lambda>ki di. fmul (Fin 0.5)
                     (fadd (Fin 1) (fdiv (fmul (fmul (Fin 2) ki) di) (fsinh (fmul ki di)))))
               k d"
  define g where "g = map2 fmul n c"
  have len: "length d = length b" "length L = length b" "length k = length b"
    "length c = length b" "length n = length b" "length g = length b"
    by (simp_all add: d_def L_def k_def c_def n_def g_def)
  have d: "depth m = Inr d" unfolding d_def using b by (rule depth_configured)
  have L: "wave_length fsolve m = Inr L"
    unfolding L_def d_def using b T by (rule wave_length_configured)
  have k: "wave_number fsolve m = Inr k" unfolding k_def using L by (rule wave_number_configured)
  have c: "wave_celerity fsolve m = Inr c"
    unfolding c_def using L T by (rule wave_celerity_configured)
  have g: "group_celerity fsolve m = Inr g"
    unfolding g_def n_def using k d c by (rule group_celerity_configured)
  have dd: "dm = d" using d dm by simp
  have i: "i < length b" using i len dd by simp
  have ngt: "\<not> gt_zero (d ! i)" using dry dd by (simp add: le_zero_not_gt_zero)
  have Li: "L ! i = Fin 0" using i len ngt by (simp add: L_def)
  have ki: "k ! i = Fin 0" using i len Li by (simp add: k_def)
  have ni: "n ! i = fmul (Fin 0.5)
             (fadd (Fin 1) (fdiv (fmul (fmul (Fin 2) (k ! i)) (d ! i)) (fsinh (fmul (k ! i) (d ! i)))))"
    using i len by (simp add: n_def)
  have "g ! i = fmul (n ! i) (c ! i)" using i len by (simp add: g_def)
  also have "\<dots> = NaN"
    unfolding ni ki by (rule group_factor_zero_wave_number) simp
  finally have gi: "g ! i = NaN" .
  show ?thesis
    using L k g len dd Li ki gi by auto
qed

section \<open>Dry nodes\<close>

text \<open>
  C1.  The claim asks that at every node with \<open>depth \<le> 0\<close> wave length, wave number
  and group celerity are all zero, with no NaN in the arrays.  Evaluated on the bathymetry
  \<open>[-1, 0, 3]\<close> with \<open>Tp = 8\<close>, for any solver: wave length and wave number are zero
  at the two dry nodes, but the group celerity there is NaN.
\<close>

theorem group_celerity_dry_node_nan:
  "depth reef_dry_wet = Inr [Fin (- 1), Fin 0, Fin 3] \<and>
   (\<exists>L k g. wave_length fsolve reef_dry_wet = Inr L \<and>
      wave_number fsolve reef_dry_wet = Inr k \<and>
      group_celerity fsolve reef_dry_wet = Inr g \<and> length g = 3 \<and>
      L ! 0 = Fin 0 \<and> k ! 0 = Fin 0 \<and> g ! 0 = NaN \<and>
      L ! 1 = Fin 0 \<and> k ! 1 = Fin 0 \<and> g ! 1 = NaN)"
proof -
  have b: "bath reef_dry_wet = Some [Fin (- 1), Fin 0, Fin 3]"
    by (simp add: reef_dry_wet_def)
  have T: "Tp reef_dry_wet = Some (Fin 8)"
    by (simp add: reef_dry_wet_def)
  have d: "depth reef_dry_wet = Inr [Fin (- 1), Fin 0, Fin 3]"
    by (simp add: depth_configured [OF b] fadd_def)
  from dry_node_wave_field [OF b T d, of 0 fsolve]
  obtain L k g where 0: "wave_length fsolve reef_dry_wet = Inr L"
    "wave_number fsolve reef_dry_wet = Inr k" "group_celerity fsolve reef_dry_wet = Inr g"
    "length g = 3" "L ! 0 = Fin 0" "k ! 0 = Fin 0" "g ! 0 = NaN"
    by auto
  from dry_node_wave_field [OF b T d, of 1 fsolve] 0
  have "L ! 1 = Fin 0" "k ! 1 = Fin 0" "g ! 1 = NaN"
    by auto
  with 0 d show ?thesis by blast
qed

section \<open>Wave number\<close>

text \<open>
  C5.  For every model whose bathymetry and peak period are set, and for any solver,
  \<open>wave_length\<close> and \<open>wave_number\<close> both return an array with one entry per node, and
  at every node the wave number is \<open>2 * pi / wave_length\<close> where the wave length is
  positive and \<open>0\<close> where the wave length is zero.
\<close>

theorem wave_number_from_wave_length:
  assumes b: "bath m = Some b" and T: "Tp m = Some T"
  shows "\<exists>L k. wave_length fsolve m = Inr L \<and> wave_number fsolve m = Inr k \<and>
           length L = length b \<and> length k = length b \<and>
           (\<forall>i<length b.
              (gt_zero (L ! i) \<longrightarrow> k ! i = fdiv (Fin (2 * pi)) (L ! i)) \<and>
              (is_zero (L ! i) \<longrightarrow> k ! i = Fin 0))"
proof -
  define L where "L = map (\<lambda>h. if gt_zero h
                    then fsolve (\<lambda>L. dispersion L T h (Fin 9.81)) (fmul (Fin 9.81) (fpow2 T))
                    else Fin 0) (map (\<lambda>z. fadd z (Fin 0)) b)"
  define k where "k = map (\<lambda>l. if gt_zero l then fdiv (Fin (2 * pi)) l else Fin 0) L"
  have lenL: "length L = length b" by (simp add: L_def)
  have lenk: "length k = length b" by (simp add: k_def lenL)
  have L: "wave_length fsolve m = Inr L"
    unfolding L_def using b T by (rule wave_length_configured)
  have k: "wave_number fsolve m = Inr k"
    unfolding k_def using L by (rule wave_number_configured)
  have zero_not_gt: "\<not> gt_zero l" if "is_zero l" for l
    using that by (cases l) simp_all
  have "(gt_zero (L ! i) \<longrightarrow> k ! i = fdiv (Fin (2 * pi)) (L ! i)) \<and>
        (is_zero (L ! i) \<longrightarrow> k ! i = Fin 0)" if "i < length b" for i
    using that lenL zero_not_gt [of "L ! i"] by (auto simp add: k_def)
  with L k lenL lenk show ?thesis by blast
qed

text \<open>
  The theorem at the bathymetry \<open>[-1, 0, 3]\<close> with \<open>Tp = 8\<close>: node 2 is wet and has a
  positive wave length, node 0 is dry.
\<close>

theorem wave_number_from_wave_length_witness:
  "bath reef_dry_wet = Some [Fin (- 1), Fin 0, Fin 3] \<and> Tp reef_dry_wet = Some (Fin 8) \<and>
   (\<exists>L k. wave_length initial_guess reef_dry_wet = Inr L \<and>
      wave_number initial_guess reef_dry_wet = Inr k \<and> length L = 3 \<and> length k = 3 \<and>
      gt_zero (L ! 2) \<and> k ! 2 = fdiv (Fin (2 * pi)) (L ! 2) \<and>
      is_zero (L ! 0) \<and> k ! 0 = Fin 0)"
proof -
  have b: "bath reef_dry_wet = Some [Fin (- 1), Fin 0, Fin 3]"
    by (simp add: reef_dry_wet_def)
  have T: "Tp reef_dry_wet = Some (Fin 8)"
    by (simp add: reef_dry_wet_def)
  have wl: "wave_length initial_guess reef_dry_wet =
              Inr [Fin 0, Fin 0, fmul (Fin 9.81) (fpow2 (Fin 8))]"
    by (simp add: wave_length_configured [OF b T] fadd_def initial_guess_def)
  have pos: "gt_zero (fmul (Fin 9.81) (fpow2 (Fin 8)))"
    by (simp add: fmul_def fpow2_def)
  from wave_number_from_wave_length [OF b T, of initial_guess]
  obtain L k where r: "wave_length initial_guess reef_dry_wet = Inr L"
    "wave_number initial_guess reef_dry_wet = Inr k" "length L = 3" "length k = 3"
    and all: "\<forall>i<3. (gt_zero (L ! i) \<longrightarrow> k ! i = fdiv (Fin (2 * pi)) (L ! i)) \<and>
              (is_zero (L ! i) \<longrightarrow> k ! i = Fin 0)"
    by auto
  have Leq: "L = [Fin 0, Fin 0, fmul (Fin 9.81) (fpow2 (Fin 8))]" using r(1) wl by simp
  have L2: "gt_zero (L ! 2)" using pos by (simp add: Leq)
  have L0: "is_zero (L ! 0)" by (simp add: Leq)
  from all L2 have k2: "k ! 2 = fdiv (Fin (2 * pi)) (L ! 2)" by simp
  from all L0 have k0: "k ! 0 = Fin 0" by simp
  show ?thesis using b T r L2 k2 L0 k0 by blast
qed

section \<open>Coordinates\<close>

lemma half_ceiling: "\<lceil>(1::real) / 2\<rceil> = 1"
  by (simp add: ceiling_eq_iff)

text \<open>
  What \<open>x_coordinates\<close> returns for a positive spacing: the multiples of \<open>dx\<close> below the
  node count, \<open>ceil(space / dx)\<close> of them.
\<close>

lemma x_coordinates_configured:
  assumes "bath m = Some b" and "dx m = Some d" and "0 < d"
  shows "\<exists>xs. x_coordinates m = Inr (Some xs) \<and>
           length xs = nat \<lceil>real (length b) / d\<rceil> \<and>
           (\<forall>i<length xs. xs ! i = real i * d)"
  using assms by (simp add: x_coordinates_def space_def arange_def)

text \<open>
  C4.  The claim asks for one position per node.  Evaluated on five nodes with
  \<open>dx = 10\<close>: \<open>np.arange(0, 5, 10)\<close> is the single position \<open>0\<close>.
\<close>

theorem x_coordinates_five_nodes:
  "space reef_five = Some 5 \<and> dx reef_five = Some 10 \<and>
   x_coordinates reef_five = Inr (Some [0])"
  by (simp add: reef_five_def Reef1D_default_def x_coordinates_def space_def arange_def
      half_ceiling)

text \<open>
  C6.  For every model whose bathymetry and spacing are set, with a non-zero spacing,
  \<open>x_coordinates\<close> and \<open>xy_coordinates\<close> both return an array, row \<open>i\<close> of
  \<open>xy_coordinates\<close> is the pair of \<open>x_coordinates[i]\<close> and \<open>y_coordinates[0]\<close>, and
  \<open>y_coordinates\<close> is the one-element array \<open>[0]\<close>.
\<close>

theorem xy_coordinates_pairs:
  assumes "bath m = Some b" and "dx m = Some d" and "d \<noteq> 0"
  shows "\<exists>xs xy. x_coordinates m = Inr (Some xs) \<and> xy_coordinates m = Inr (Some xy) \<and>
           length xy = length xs \<and>
           (\<forall>i<length xs. xy ! i = [xs ! i, y_coordinates m ! 0]) \<and>
           y_coordinates m = [0]"
  using assms
  by (simp add: xy_coordinates_def x_coordinates_def space_def arange_def y_coordinates_def)

text \<open>
  The theorem on three nodes with unit spacing.
\<close>

theorem xy_coordinates_pairs_witness:
  "bath reef_unit_spacing = Some [Fin 5, Fin 5, Fin 5] \<and> dx reef_unit_spacing = Some 1 \<and>
   x_coordinates reef_unit_spacing = Inr (Some [0, 1, 2]) \<and>
   (\<exists>xy. xy_coordinates reef_unit_spacing = Inr (Some xy) \<and> length xy = 3 \<and>
      xy ! 0 = [0, 0] \<and> xy ! 1 = [1, 0] \<and> xy ! 2 = [2, 0]) \<and>
   y_coordinates reef_unit_spacing = [0]"
proof -
  have b: "bath reef_unit_spacing = Some [Fin 5, Fin 5, Fin 5]"
    by (simp add: reef_unit_spacing_def)
  have d: "dx reef_unit_spacing = Some 1"
    by (simp add: reef_unit_spacing_def)
  have x: "x_coordinates reef_unit_spacing = Inr (Some [0, 1, 2])"
    by (simp add: x_coordinates_def space_def arange_def b d upt_rec)
  from xy_coordinates_pairs [OF b d] x
  obtain xy where xy: "xy_coordinates reef_unit_spacing = Inr (Some xy)" "length xy = 3"
    and all: "\<forall>i<3. xy ! i = [[0, 1, 2] ! i, y_coordinates reef_unit_spacing ! 0]"
    and y: "y_coordinates reef_unit_spacing = [0]"
    by auto
  have "xy ! 0 = [0, 0]" "xy ! 1 = [1, 0]" "xy ! 2 = [2, 0]"
    using all y by simp_all
  with b d x xy y show ?thesis by blast
qed

section \<open>Lifecycle methods\<close>

text \<open>
  C10.  \<open>initiate\<close> and \<open>finalise\<close> raise \<open>NotImplementedError\<close> in every model state,
  configured or not, and leave the model as it was.
\<close>

theorem initiate_finalise_not_implemented:
  "initiate m = (Inl NotImplementedError, m) \<and> finalise m = (Inl NotImplementedError, m)"
  by (simp add: initiate_def finalise_def)

text \<open>
  C2, as amended.  \<open>update\<close> checks no lifecycle state: in every model state it returns
  its tuple and raises nothing, and it does the same on the model left by a call of
  \<open>initiate\<close> or of \<open>finalise\<close> (each of which has raised).
\<close>

theorem update_ignores_lifecycle:
  "fst (update m coral storm) =
     Inr (PyTuple (if truthy storm then [PyNone, PyNone] else [PyNone, PyNone, PyNone])) \<and>
   fst (update (snd (initiate m)) coral storm) = fst (update m coral storm) \<and>
   fst (update (snd (finalise m)) coral storm) = fst (update m coral storm)"
  by (simp add: update_def initiate_def finalise_def)

text \<open>
  C2 as stated fails: on a model on which \<open>initiate\<close> was never called, and on the
  model left by \<open>finalise\<close>, \<open>update\<close> returns a value instead of raising.
\<close>

theorem update_ignores_lifecycle_counterexample:
  "\<not> isl (fst (update Reef1D_default () (PyBool False))) \<and>
   \<not> isl (fst (update (snd (finalise Reef1D_default)) () (PyBool False)))"
  by (simp add: update_def finalise_def)

section \<open>The method \<open>update\<close>\<close>

text \<open>
  C3.  For every model, coral and storm argument, \<open>update\<close> returns a tuple: of two
  entries when the storm argument is truthy, of three entries otherwise.
\<close>

theorem update_tuple_arity:
  "\<exists>t. fst (update m coral storm) = Inr (PyTuple t) \<and>
        length t = (if truthy storm then 2 else 3)"
  by (simp add: update_def)

text \<open>
  C8.  \<open>update\<close> leaves the model and the coral as they were.
\<close>

theorem update_frame:
  "snd (update m coral storm) = (m, coral)"
  by (simp add: update_def)

text \<open>
  C9.  A second call of \<open>update\<close>, made with the same storm argument on the model and
  coral the first call left behind, returns what the first call returned and again leaves
  both unchanged.
\<close>

theorem update_deterministic:
  "(case update m coral storm of
      (r1, m1, coral1) \<Rightarrow> update m1 coral1 storm = (r1, m1, coral1))"
  by (simp add: update_def)

section \<open>The attribute \<open>water_depth\<close>\<close>

text \<open>
  C7, as amended.  On \<open>Reef1D\<close> the attribute is a stored field: reading it raises
  nothing and returns what is stored, the array when one is set and \<open>None\<close> when none is;
  setting the bathymetry does not change it, and the read never behaves as the protocol
  class's raising property.
\<close>

theorem water_depth_is_stored_field:
  "Reef1D_water_depth m = Inr (water_depth m) \<and>
   Reef1D_water_depth (m\<lparr>water_depth := Some w\<rparr>) = Inr (Some w) \<and>
   Reef1D_water_depth (m\<lparr>water_depth := None\<rparr>) = Inr None \<and>
   Reef1D_water_depth (m\<lparr>bath := b\<rparr>) = Reef1D_water_depth m \<and>
   Reef1D_water_depth m \<noteq> HydrodynamicProtocol_water_depth"
  by (simp add: Reef1D_water_depth_def HydrodynamicProtocol_water_depth_def)

text \<open>
  C7 as stated fails: on a model with no water depth set the read returns \<open>None\<close>
  and raises no \<open>NotImplementedError\<close>.
\<close>

theorem water_depth_unset_counterexample:
  "Reef1D_water_depth Reef1D_default = Inr None \<and>
   Reef1D_water_depth Reef1D_default \<noteq> Inl NotImplementedError"
  by (simp add: Reef1D_water_depth_def Reef1D_default_def)

end
